theory Spec2Isabelle
  imports Main
begin

section \<open>Values exchanged with the editor, the file system and the language service\<close>

text \<open>
  The module \<^verbatim>\<open>src/azureFunctions/azureFunctionsService.ts\<close> is glue between the editor
  (\<^verbatim>\<open>vscode\<close>), Node's \<^verbatim>\<open>path\<close> and \<^verbatim>\<open>fs\<close> modules, the \<^verbatim>\<open>fast-glob\<close> package and the
  language-service client. Those collaborators are not part of the module: they are the
  fields of the record \<open>host\<close> below, and every function of the class takes the host as
  its first argument. Strings are \<open>string\<close>; \<^verbatim>\<open>undefined\<close> is \<open>None\<close>.
\<close>

text \<open>\<^verbatim>\<open>vscode.Uri\<close>: the module reads nothing but \<^verbatim>\<open>fsPath\<close>.\<close>

record Uri =
  fsPath :: string

text \<open>\<^verbatim>\<open>vscode.WorkspaceFolder\<close>: the module reads nothing but \<^verbatim>\<open>uri\<close>.\<close>

record WorkspaceFolder =
  uri :: Uri

text \<open>\<^verbatim>\<open>fs.Stats\<close>: the module calls nothing but \<^verbatim>\<open>isFile()\<close>.\<close>

datatype file_kind = RegularFile | Directory | OtherKind

record Stats =
  kind :: file_kind

definition isFile :: "Stats \<Rightarrow> bool" where
  "isFile stats = (kind stats = RegularFile)"

text \<open>
  What a JavaScript \<^verbatim>\<open>throw\<close> carries here: an error of the file system with its
  \<^verbatim>\<open>code\<close> (\<^verbatim>\<open>'ENOENT'\<close>, \<^verbatim>\<open>'EACCES'\<close>, ...), the \<^verbatim>\<open>TypeError\<close> of reading a property of
  \<^verbatim>\<open>undefined\<close>, and \<^verbatim>\<open>new Error(message)\<close>. Only a file-system error has a \<^verbatim>\<open>code\<close>.
\<close>

datatype exn = SystemError string | TypeError | Error string

fun code :: "exn \<Rightarrow> string option" where
  "code (SystemError c) = Some c"
| "code TypeError = None"
| "code (Error m) = None"

text \<open>
  The contracts of \<^verbatim>\<open>models/contracts/azureFunctions/azureFunctionsRequest\<close>: the
  declarations are outside this module; the fields are those the module reads and
  writes (lines 34--36, 42--45, 113--119 and 127--128).
\<close>

datatype BindingType = BindingType_input | BindingType_output

record GetAzureFunctionsParams =
  filePath :: string

record InsertSqlBindingParams = GetAzureFunctionsParams +
  functionName :: string
  objectName :: string
  bindingType :: BindingType
  connectionStringSetting :: string

record ResultStatus =
  success :: bool
  errorMessage :: string

record GetAzureFunctionsResult = ResultStatus +
  azureFunctions :: "string list"

text \<open>The options handed to \<^verbatim>\<open>vscode.window.showInputBox\<close>.\<close>

record InputBoxOptions =
  prompt :: string
  "value" :: "string option"
  ignoreFocusOut :: bool

section \<open>Calls and promises\<close>

text \<open>
  Every call that leaves the module is an event; the events of a run, in the order in
  which the module issues them, are its trace. \<^verbatim>\<open>console.error\<close> logging is left out.
\<close>

datatype event =
    Glob string
  | Stat string
  | ShowQuickPick "string list" string
  | ShowInputBox InputBoxOptions
  | ShowErrorMessage string
  | GetAzureFunctionsRequest GetAzureFunctionsParams
  | InsertSqlBindingRequest InsertSqlBindingParams

text \<open>
  An \<^verbatim>\<open>async\<close> function returns a promise: the calls it issues and the outcome it settles
  with, a rejection (\<open>Inl\<close>) or a value (\<open>Inr\<close>).
\<close>

datatype 'a promise = Promise (calls: "event list") (settled: "exn + 'a")

definition resolved :: "'a \<Rightarrow> 'a promise" where
  "resolved v = Promise [] (Inr v)"

definition rejected :: "exn \<Rightarrow> 'a promise" where
  "rejected e = Promise [] (Inl e)"

text \<open>\<^verbatim>\<open>const v = await p; k(v)\<close>: a rejection of \<open>p\<close> ends the caller.\<close>

definition await :: "'a promise \<Rightarrow> ('a \<Rightarrow> 'b promise) \<Rightarrow> 'b promise" where
  "await p k =
     (case settled p of
        Inl e \<Rightarrow> Promise (calls p) (Inl e)
      | Inr v \<Rightarrow> Promise (calls p @ calls (k v)) (settled (k v)))"

text \<open>
  \<^verbatim>\<open>p; k\<close> with no \<^verbatim>\<open>await\<close>: the calls of \<open>p\<close> are issued, its outcome is not
  looked at.
\<close>

definition started :: "'a promise \<Rightarrow> 'b promise \<Rightarrow> 'b promise" where
  "started p k = Promise (calls p @ calls k) (settled k)"

text \<open>
  \<^verbatim>\<open>const x = p; q\<close> where \<open>p\<close> is an \<^verbatim>\<open>async\<close> call that is not awaited and \<open>x\<close> is never
  read. The call runs \<open>p\<close> up to its first \<^verbatim>\<open>await\<close>, which issues the first call of \<open>p\<close>
  at once; the caller \<open>q\<close> then issues its own first call in the same turn. The rest of
  \<open>p\<close> runs when the event loop resumes it: after \<open>k\<close> further calls of \<open>q\<close>, or after the
  last call of \<open>q\<close> when \<open>q\<close> has no more than that. The outcome of \<open>p\<close> is not looked at.
\<close>

definition detached :: "nat \<Rightarrow> 'a promise \<Rightarrow> 'b promise \<Rightarrow> 'b promise" where
  "detached k p q =
     Promise (take 1 (calls p) @ take (Suc k) (calls q) @ drop 1 (calls p) @ drop (Suc k) (calls q))
       (settled q)"

text \<open>\<^verbatim>\<open>try { p } catch (e) { handler(e) }\<close>.\<close>

definition try_catch :: "'a promise \<Rightarrow> (exn \<Rightarrow> 'a promise) \<Rightarrow> 'a promise" where
  "try_catch p handler =
     (case settled p of
        Inl e \<Rightarrow> Promise (calls p @ calls (handler e)) (settled (handler e))
      | Inr v \<Rightarrow> p)"

text \<open>
  JavaScript's \<^verbatim>\<open>ToBoolean\<close> on the values the module tests: a promise is an object,
  and every object is truthy, whatever it settles with; a string is falsy when it is
  \<^verbatim>\<open>undefined\<close> or empty.
\<close>

definition ToBoolean_promise :: "'a promise \<Rightarrow> bool" where
  "ToBoolean_promise p = True"

definition ToBoolean_string :: "string option \<Rightarrow> bool" where
  "ToBoolean_string s = (case s of None \<Rightarrow> False | Some t \<Rightarrow> t \<noteq> [])"

section \<open>The host\<close>

record host =
  getWorkspaceFolder :: "Uri \<Rightarrow> WorkspaceFolder option"
  activeTextEditor :: "Uri option"
  showQuickPick :: "string list \<Rightarrow> string \<Rightarrow> string option"
  showInputBox :: "InputBoxOptions \<Rightarrow> string option"
  escapePath :: "string \<Rightarrow> string"
  glob :: "string \<Rightarrow> exn + string list"
  posix_join :: "string list \<Rightarrow> string"
  path_join :: "string list \<Rightarrow> string"
  path_resolve :: "string \<Rightarrow> string"
  path_dirname :: "string \<Rightarrow> string"
  Uri_file :: "string \<Rightarrow> Uri"
  stat :: "string \<Rightarrow> exn + Stats"
  sendGetAzureFunctions :: "GetAzureFunctionsParams \<Rightarrow> exn + GetAzureFunctionsResult"
  sendInsertSqlBinding :: "InsertSqlBindingParams \<Rightarrow> exn + ResultStatus"
  resumes_after :: nat

text \<open>
  \<open>getWorkspaceFolder\<close> is \<^verbatim>\<open>vscode.workspace.getWorkspaceFolder\<close>; \<open>activeTextEditor\<close> is
  \<^verbatim>\<open>vscode.window.activeTextEditor.document.uri\<close>, \<open>None\<close> with no active editor;
  \<open>showQuickPick items title\<close> is the label of the item the user picks, \<open>None\<close> when the
  picker is dismissed; \<open>showInputBox\<close> is the text the user enters, \<open>None\<close> when the box is
  dismissed; \<open>escapePath\<close> and \<open>glob\<close> are those of \<^verbatim>\<open>fast-glob\<close>; \<open>posix_join\<close>,
  \<open>path_join\<close>, \<open>path_resolve\<close> and \<open>path_dirname\<close> are \<^verbatim>\<open>path.posix.join\<close>,
  \<^verbatim>\<open>path.join\<close>, \<^verbatim>\<open>path.resolve\<close> and \<^verbatim>\<open>path.dirname\<close>; \<open>Uri_file\<close> is
  \<^verbatim>\<open>vscode.Uri.file\<close>; \<open>stat\<close> is \<^verbatim>\<open>fs.promises.stat\<close>; the next two are
  \<^verbatim>\<open>this._client.sendRequest\<close> at \<^verbatim>\<open>GetAzureFunctionsRequest.type\<close> and at
  \<^verbatim>\<open>InsertSqlBindingRequest.type\<close>. \<open>resumes_after\<close> is the event loop's part in
  \<open>insertSqlInputBinding\<close>: how many further calls the command issues, after its first
  prompt, before the un-awaited project lookup of line 57 is resumed.
\<close>

definition fs_promises_stat :: "host \<Rightarrow> string \<Rightarrow> Stats promise" where
  "fs_promises_stat h file_path = Promise [Stat file_path] (stat h file_path)"

definition fast_glob :: "host \<Rightarrow> string \<Rightarrow> (string list) promise" where
  "fast_glob h pattern = Promise [Glob pattern] (glob h pattern)"

definition window_showQuickPick :: "host \<Rightarrow> string list \<Rightarrow> string \<Rightarrow> (string option) promise" where
  "window_showQuickPick h items title =
     Promise [ShowQuickPick items title] (Inr (showQuickPick h items title))"

definition window_showInputBox :: "host \<Rightarrow> InputBoxOptions \<Rightarrow> (string option) promise" where
  "window_showInputBox h options = Promise [ShowInputBox options] (Inr (showInputBox h options))"

definition window_showErrorMessage :: "string \<Rightarrow> (string option) promise" where
  "window_showErrorMessage message = Promise [ShowErrorMessage message] (Inr None)"

definition client_sendRequest_GetAzureFunctions ::
  "host \<Rightarrow> GetAzureFunctionsParams \<Rightarrow> GetAzureFunctionsResult promise" where
  "client_sendRequest_GetAzureFunctions h params =
     Promise [GetAzureFunctionsRequest params] (sendGetAzureFunctions h params)"

definition client_sendRequest_InsertSqlBinding ::
  "host \<Rightarrow> InsertSqlBindingParams \<Rightarrow> ResultStatus promise" where
  "client_sendRequest_InsertSqlBinding h params =
     Promise [InsertSqlBindingRequest params] (sendInsertSqlBinding h params)"

section \<open>The marker file\<close>

definition hostFileName :: string where
  "hostFileName = ''host.json''"

text \<open>Lines 181--192.\<close>

definition getFileStatus :: "host \<Rightarrow> string \<Rightarrow> (Stats option) promise" where
  "getFileStatus h file_path =
     try_catch
       (await (fs_promises_stat h file_path) (\<lambda>stats. resolved (Some stats)))
       (\<lambda>e. if code e = Some ''ENOENT'' then resolved None else rejected e)"

text \<open>Lines 176--179.\<close>

definition fileExist :: "host \<Rightarrow> string \<Rightarrow> bool promise" where
  "fileExist h file_path =
     await (getFileStatus h file_path)
       (\<lambda>stats. resolved (case stats of Some s \<Rightarrow> isFile s | None \<Rightarrow> False))"

text \<open>Lines 172--174.\<close>

definition isFunctionProject :: "host \<Rightarrow> string \<Rightarrow> bool promise" where
  "isFunctionProject h folderPath =
     await (fileExist h (path_join h [folderPath, hostFileName])) resolved"

section \<open>Locating the functions project\<close>

text \<open>\<^verbatim>\<open>s.replace(/\\/g, '/')\<close>: every backslash becomes a forward slash.\<close>

definition replace_backslashes :: "string \<Rightarrow> string" where
  "replace_backslashes s = map (\<lambda>c. if c = CHR 0x5C then CHR ''/'' else c) s"

text \<open>
  The loop of lines 150--157. The test of line 152 is on the promise that
  \<open>isFunctionProject\<close> returns, not on the value it settles with: there is no
  \<^verbatim>\<open>await\<close>. The argument is the project file's own path.
\<close>

fun projectLoop :: "host \<Rightarrow> Uri list \<Rightarrow> (Uri option) promise" where
  "projectLoop h [] = resolved None"
| "projectLoop h (p # ps) =
     (let c = isFunctionProject h (fsPath p)
      in if ToBoolean_promise c then started c (resolved (Some p))
         else started c (projectLoop h ps))"

text \<open>Lines 133--169.\<close>

definition getFunctionsProject :: "host \<Rightarrow> Uri \<Rightarrow> (Uri option) promise" where
  "getFunctionsProject h file =
     (case getWorkspaceFolder h file of
        None \<Rightarrow> rejected TypeError
      | Some folder \<Rightarrow>
          (let escapedPath = escapePath h (replace_backslashes (fsPath (uri folder)));
               projFilter = posix_join h [escapedPath, ''**'', ''*.csproj'']
           in await (fast_glob h projFilter) (\<lambda>paths.
                let projectFiles = map (\<lambda>p. Uri_file h (path_resolve h p)) paths
                in if length projectFiles > 1 then projectLoop h projectFiles
                   else if length projectFiles = 0 then resolved None
                   else await (isFunctionProject h (path_dirname h (fsPath (projectFiles ! 0))))
                          (\<lambda>isFuncProject. resolved (Some (projectFiles ! 0))))))"

section \<open>Listing the functions of a file and inserting a binding\<close>

text \<open>Lines 26--47. The argument is \<open>None\<close> when the caller passes no URI.\<close>

definition getAzureFunctions :: "host \<Rightarrow> Uri option \<Rightarrow> (string list) promise" where
  "getAzureFunctions h u =
     (case u of
        None \<Rightarrow> resolved []
      | Some file \<Rightarrow>
          (let params = \<lparr>filePath = fsPath file\<rparr>
           in await (client_sendRequest_GetAzureFunctions h params) (\<lambda>result.
                if success result then resolved (azureFunctions result)
                else rejected (Error (errorMessage result)))))"

text \<open>
  \<^verbatim>\<open>if (!v) { return; }\<close> on the answer \<open>v\<close> of a prompt, and the rest of the function
  on the string that \<open>v\<close> then is.
\<close>

definition return_if_not :: "string option \<Rightarrow> (string \<Rightarrow> unit promise) \<Rightarrow> unit promise" where
  "return_if_not v k =
     (if \<not> ToBoolean_string v then resolved ()
      else (case v of None \<Rightarrow> resolved () | Some s \<Rightarrow> k s))"

text \<open>
  Lines 49--130. The promise \<open>functionsProject\<close> of line 57 is not awaited and never
  read: whatever it settles with, value or rejection, does not reach this function. Its
  calls are issued all the same: the glob at once, before the first prompt, and what
  follows the glob when the event loop resumes the lookup, at a point among this
  function's own calls that the code does not fix (\<open>resumes_after\<close>). The
  \<^verbatim>\<open>showErrorMessage\<close> calls are not awaited either; they are issued and the function
  goes on.
\<close>

definition insertSqlInputBinding :: "host \<Rightarrow> Uri option \<Rightarrow> unit promise" where
  "insertSqlInputBinding h u =
     (case (case u of None \<Rightarrow> activeTextEditor h | Some file \<Rightarrow> Some file) of
        None \<Rightarrow> rejected TypeError
      | Some file \<Rightarrow>
          (let functionsProject = getFunctionsProject h file
           in detached (resumes_after h) functionsProject
             (await (window_showQuickPick h [''input'', ''output''] ''Type of binding:'')
                (\<lambda>selectedBinding.
              await (getAzureFunctions h (Some file)) (\<lambda>azureFunctions.
                if length azureFunctions = 0
                then started (window_showErrorMessage ''No Azure functions in the current file'')
                       (resolved ())
                else
              await (window_showQuickPick h azureFunctions
                       ''Azure function in current file to add sql binding to:'')
                (\<lambda>azureFunctionName. return_if_not azureFunctionName (\<lambda>azureFunctionName.
              await (window_showInputBox h
                       \<lparr>prompt = (if selectedBinding = Some ''input''
                                  then ''Object to put in binding:''
                                  else ''Table to put in binding''),
                        value = Some ''[dbo].[placeholder]'',
                        ignoreFocusOut = True\<rparr>)
                (\<lambda>objectName. return_if_not objectName (\<lambda>objectName.
              await (window_showInputBox h
                       \<lparr>prompt = ''Connection string setting name'',
                        value = None,
                        ignoreFocusOut = True\<rparr>)
                (\<lambda>connectionStringSetting.
                   return_if_not connectionStringSetting (\<lambda>connectionStringSetting.
              (let params =
                     \<lparr>filePath = fsPath file,
                      functionName = azureFunctionName,
                      objectName = objectName,
                      bindingType = (if selectedBinding = Some ''input''
                                     then BindingType_input else BindingType_output),
                      connectionStringSetting = connectionStringSetting\<rparr>
               in await (client_sendRequest_InsertSqlBinding h params) (\<lambda>result.
                    if \<not> success result
                    then started (window_showErrorMessage (errorMessage result)) (resolved ())
                    else resolved ())))))))))))))"

section \<open>Example hosts\<close>

text \<open>
  Concrete hosts on which the functions above are run. The path functions are the
  POSIX ones on paths that need no normalisation (absolute, no \<^verbatim>\<open>.\<close> or \<^verbatim>\<open>..\<close> segment,
  no repeated or trailing slash); \<open>escape_glob\<close> puts a backslash before each of
  \<^verbatim>\<open>( ) * ? [ ] { | }\<close>; the file system is a table from paths to the outcome of
  \<^verbatim>\<open>stat\<close>, and a path that is not in the table does not exist.
\<close>

definition backslash :: char where
  "backslash = CHR 0x5C"

fun join_with :: "char \<Rightarrow> string list \<Rightarrow> string" where
  "join_with sep [] = ''.''"
| "join_with sep [a] = a"
| "join_with sep (a # b # r) = a @ [sep] @ join_with sep (b # r)"

definition dirname_with :: "char \<Rightarrow> string \<Rightarrow> string" where
  "dirname_with sep p = rev (drop 1 (dropWhile (\<lambda>c. c \<noteq> sep) (rev p)))"

definition to_backslashes :: "string \<Rightarrow> string" where
  "to_backslashes p = map (\<lambda>c. if c = CHR ''/'' then backslash else c) p"

definition escape_glob :: "string \<Rightarrow> string" where
  "escape_glob s =
     concat (map (\<lambda>c. if c \<in> set ''()*?[]{|}'' then [backslash, c] else [c]) s)"

definition ENOENT :: exn where
  "ENOENT = SystemError ''ENOENT''"

definition stat_of :: "(string \<times> (exn + Stats)) list \<Rightarrow> string \<Rightarrow> exn + Stats" where
  "stat_of table p = (case map_of table p of Some r \<Rightarrow> r | None \<Rightarrow> Inl ENOENT)"

definition glob_of :: "(string \<times> string list) list \<Rightarrow> string \<Rightarrow> exn + string list" where
  "glob_of table pattern = (case map_of table pattern of Some ps \<Rightarrow> Inr ps | None \<Rightarrow> Inr [])"

definition regular :: "exn + Stats" where
  "regular = Inr \<lparr>kind = RegularFile\<rparr>"

text \<open>
  \<open>posix_host folders globs stats\<close>: \<open>folders\<close> gives the workspace root of each file
  that has one, \<open>globs\<close> the files each pattern finds, \<open>stats\<close> the file system. Nobody
  answers a prompt, the language service reports failure and an un-awaited lookup is
  resumed as soon as it can be; \<open>ui_host\<close> below sets the answers and responses.
\<close>

definition posix_host ::
  "(string \<times> string) list \<Rightarrow> (string \<times> string list) list \<Rightarrow> (string \<times> (exn + Stats)) list \<Rightarrow> host"
  where
  "posix_host folders globs stats =
     \<lparr>getWorkspaceFolder =
        (\<lambda>f. map_option (\<lambda>r. \<lparr>uri = \<lparr>fsPath = r\<rparr>\<rparr>) (map_of folders (fsPath f))),
      activeTextEditor = None,
      showQuickPick = (\<lambda>items title. None),
      showInputBox = (\<lambda>options. None),
      escapePath = escape_glob,
      glob = glob_of globs,
      posix_join = join_with CHR ''/'',
      path_join = join_with CHR ''/'',
      path_resolve = (\<lambda>p. p),
      path_dirname = dirname_with CHR ''/'',
      Uri_file = (\<lambda>p. \<lparr>fsPath = p\<rparr>),
      stat = stat_of stats,
      sendGetAzureFunctions =
        (\<lambda>params. Inr \<lparr>success = False, errorMessage = ''no service'', azureFunctions = []\<rparr>),
      sendInsertSqlBinding = (\<lambda>params. Inr \<lparr>success = False, errorMessage = ''no service''\<rparr>),
      resumes_after = 0\<rparr>"

text \<open>
  The workspace of the end-to-end scenario: root \<^verbatim>\<open>/ws\<close>, \<^verbatim>\<open>/ws/a/Foo.csproj\<close> with no
  \<^verbatim>\<open>host.json\<close> beside it, \<^verbatim>\<open>/ws/b/Bar.csproj\<close> with \<^verbatim>\<open>/ws/b/host.json\<close>. A path below a
  regular file fails with \<^verbatim>\<open>ENOTDIR\<close>. The directory \<^verbatim>\<open>/ws/c\<close> holds no project; a
  \<^verbatim>\<open>stat\<close> of its \<^verbatim>\<open>host.json\<close> fails with \<^verbatim>\<open>EACCES\<close>.
\<close>

definition ws_host :: host where
  "ws_host =
     posix_host
       [(''/ws/b/Function1.cs'', ''/ws'')]
       [(''/ws/**/*.csproj'', [''/ws/a/Foo.csproj'', ''/ws/b/Bar.csproj''])]
       [(''/ws/a/Foo.csproj'', regular),
        (''/ws/b/Bar.csproj'', regular),
        (''/ws/b/host.json'', regular),
        (''/ws/a/Foo.csproj/host.json'', Inl (SystemError ''ENOTDIR'')),
        (''/ws/b/Bar.csproj/host.json'', Inl (SystemError ''ENOTDIR'')),
        (''/ws/c/host.json'', Inl (SystemError ''EACCES''))]"

text \<open>
  Workspaces with one project file: \<^verbatim>\<open>/one/App.csproj\<close>, where \<^verbatim>\<open>host.json\<close> is absent,
  a regular file, a directory, or cannot be read (\<^verbatim>\<open>EACCES\<close>).
\<close>

definition one_host :: "(exn + Stats) \<Rightarrow> host" where
  "one_host marker =
     posix_host
       [(''/one/Function1.cs'', ''/one'')]
       [(''/one/**/*.csproj'', [''/one/App.csproj''])]
       [(''/one/App.csproj'', regular), (''/one/host.json'', marker)]"

text \<open>A workspace with no project file, and a file that is in no workspace.\<close>

definition empty_host :: host where
  "empty_host = posix_host [(''/empty/Function1.cs'', ''/empty'')] [] []"

text \<open>
  A workspace on Windows whose root is \<^verbatim>\<open>C:\ws[1]\a*b\<close>, with one project file below
  it: the native separator is the backslash, and \<^verbatim>\<open>path.resolve\<close> turns the forward
  slashes of an absolute path into backslashes.
\<close>

definition special_root :: string where
  "special_root = ''C:'' @ [backslash] @ ''ws[1]'' @ [backslash] @ ''a*b''"

definition special_pattern :: string where
  "special_pattern =
     ''C:/ws'' @ [backslash] @ ''[1'' @ [backslash] @ '']/a'' @ [backslash] @ ''*b/**/*.csproj''"

definition special_project :: string where
  "special_project = special_root @ [backslash] @ ''App.csproj''"

definition special_host :: host where
  "special_host =
     (posix_host
        [(special_root @ [backslash] @ ''Function1.cs'', special_root)]
        [(special_pattern, [''C:/ws[1]/a*b/App.csproj''])]
        [])
       \<lparr>path_join := join_with backslash,
        path_resolve := to_backslashes,
        path_dirname := dirname_with backslash\<rparr>"

text \<open>
  \<open>ui_host binding function object setting listing inserting\<close>: the workspace of
  \<open>ws_host\<close> with the answers to the four prompts, in the order of the source, and the
  responses of the language service to the two requests.
\<close>

definition ui_host ::
  "string option \<Rightarrow> string option \<Rightarrow> string option \<Rightarrow> string option \<Rightarrow>
   (exn + GetAzureFunctionsResult) \<Rightarrow> (exn + ResultStatus) \<Rightarrow> host" where
  "ui_host binding function object setting listing inserting =
     ws_host
       \<lparr>showQuickPick := (\<lambda>items title. if title = ''Type of binding:'' then binding else function),
        showInputBox :=
          (\<lambda>options. if prompt options = ''Connection string setting name'' then setting else object),
        sendGetAzureFunctions := (\<lambda>params. listing),
        sendInsertSqlBinding := (\<lambda>params. inserting)\<rparr>"

definition ok :: "exn + ResultStatus" where
  "ok = Inr \<lparr>success = True, errorMessage = []\<rparr>"

definition listed :: "string list \<Rightarrow> exn + GetAzureFunctionsResult" where
  "listed names = Inr \<lparr>success = True, errorMessage = [], azureFunctions = names\<rparr>"

definition failed :: "string \<Rightarrow> exn + ResultStatus" where
  "failed message = Inr \<lparr>success = False, errorMessage = message\<rparr>"

definition not_listed :: "string \<Rightarrow> exn + GetAzureFunctionsResult" where
  "not_listed message = Inr \<lparr>success = False, errorMessage = message, azureFunctions = []\<rparr>"

definition cs_file :: Uri where
  "cs_file = \<lparr>fsPath = ''/ws/b/Function1.cs''\<rparr>"

text \<open>
  The answers of a host to the four prompts of \<open>insertSqlInputBinding\<close>, with the
  items, titles and options of lines 60--65, 84--87, 93--97 and 104--107, and the two
  kinds of call that the properties below look for in a trace.
\<close>

definition binding_answer :: "host \<Rightarrow> string option" where
  "binding_answer h = showQuickPick h [''input'', ''output''] ''Type of binding:''"

definition function_answer :: "host \<Rightarrow> string list \<Rightarrow> string option" where
  "function_answer h names =
     showQuickPick h names ''Azure function in current file to add sql binding to:''"

definition object_options :: "host \<Rightarrow> InputBoxOptions" where
  "object_options h =
     \<lparr>prompt = (if binding_answer h = Some ''input''
                then ''Object to put in binding:'' else ''Table to put in binding''),
      value = Some ''[dbo].[placeholder]'',
      ignoreFocusOut = True\<rparr>"

definition setting_options :: InputBoxOptions where
  "setting_options =
     \<lparr>prompt = ''Connection string setting name'', value = None, ignoreFocusOut = True\<rparr>"

definition object_answer :: "host \<Rightarrow> string option" where
  "object_answer h = showInputBox h (object_options h)"

definition setting_answer :: "host \<Rightarrow> string option" where
  "setting_answer h = showInputBox h setting_options"

text \<open>
  The calls issued up to the listing request, up to the function picker, up to the
  object-name box and up to the setting-name box, and the parameters of the insert
  request (lines 113--119) for given answers.
\<close>

definition asked_listing :: "Uri \<Rightarrow> event list" where
  "asked_listing file =
     [ShowQuickPick [''input'', ''output''] ''Type of binding:'',
      GetAzureFunctionsRequest \<lparr>filePath = fsPath file\<rparr>]"

definition asked_function :: "Uri \<Rightarrow> string list \<Rightarrow> event list" where
  "asked_function file names =
     asked_listing file @
     [ShowQuickPick names ''Azure function in current file to add sql binding to:'']"

definition asked_object :: "host \<Rightarrow> Uri \<Rightarrow> string list \<Rightarrow> event list" where
  "asked_object h file names = asked_function file names @ [ShowInputBox (object_options h)]"

definition asked_setting :: "host \<Rightarrow> Uri \<Rightarrow> string list \<Rightarrow> event list" where
  "asked_setting h file names = asked_object h file names @ [ShowInputBox setting_options]"

definition params_of :: "host \<Rightarrow> Uri \<Rightarrow> string \<Rightarrow> string \<Rightarrow> string \<Rightarrow> InsertSqlBindingParams" where
  "params_of h file fn ob cs =
     \<lparr>filePath = fsPath file,
      functionName = fn,
      objectName = ob,
      bindingType = (if binding_answer h = Some ''input''
                     then BindingType_input else BindingType_output),
      connectionStringSetting = cs\<rparr>"

fun is_insert_request :: "event \<Rightarrow> bool" where
  "is_insert_request (InsertSqlBindingRequest p) = True"
| "is_insert_request e = False"

fun is_error_message :: "event \<Rightarrow> bool" where
  "is_error_message (ShowErrorMessage m) = True"
| "is_error_message e = False"

fun is_glob :: "event \<Rightarrow> bool" where
  "is_glob (Glob p) = True"
| "is_glob e = False"

fun is_file_system_call :: "event \<Rightarrow> bool" where
  "is_file_system_call (Glob p) = True"
| "is_file_system_call (Stat p) = True"
| "is_file_system_call e = False"

text \<open>
  The calls and the outcome of the command's own flow (lines 60--130, without the
  un-awaited lookup of line 57), by cases on the responses and answers.
\<close>

definition own_run :: "host \<Rightarrow> Uri \<Rightarrow> unit promise" where
  "own_run h file =
     (case sendGetAzureFunctions h \<lparr>filePath = fsPath file\<rparr> of
        Inl e \<Rightarrow> Promise (asked_listing file) (Inl e)
      | Inr r \<Rightarrow>
          if \<not> success r then Promise (asked_listing file) (Inl (Error (errorMessage r)))
          else if azureFunctions r = []
          then Promise (asked_listing file @ [ShowErrorMessage ''No Azure functions in the current file''])
                 (Inr ())
          else (case function_answer h (azureFunctions r) of
             None \<Rightarrow> Promise (asked_function file (azureFunctions r)) (Inr ())
           | Some fn \<Rightarrow> if fn = [] then Promise (asked_function file (azureFunctions r)) (Inr ())
             else (case object_answer h of
               None \<Rightarrow> Promise (asked_object h file (azureFunctions r)) (Inr ())
             | Some ob \<Rightarrow> if ob = [] then Promise (asked_object h file (azureFunctions r)) (Inr ())
               else (case setting_answer h of
                 None \<Rightarrow> Promise (asked_setting h file (azureFunctions r)) (Inr ())
               | Some cs \<Rightarrow> if cs = [] then Promise (asked_setting h file (azureFunctions r)) (Inr ())
                 else (case sendInsertSqlBinding h (params_of h file fn ob cs) of
                    Inl e \<Rightarrow>
                      Promise (asked_setting h file (azureFunctions r) @
                          [InsertSqlBindingRequest (params_of h file fn ob cs)]) (Inl e)
                  | Inr res \<Rightarrow>
                      if success res
                      then Promise (asked_setting h file (azureFunctions r) @
                          [InsertSqlBindingRequest (params_of h file fn ob cs)]) (Inr ())
                      else Promise (asked_setting h file (azureFunctions r) @
                          [InsertSqlBindingRequest (params_of h file fn ob cs),
                           ShowErrorMessage (errorMessage res)]) (Inr ()))))))"

text \<open>The pattern that \<open>getFunctionsProject\<close> hands to the glob for a workspace root.\<close>

definition projFilter_of :: "host \<Rightarrow> string \<Rightarrow> string" where
  "projFilter_of h root =
     posix_join h [escapePath h (replace_backslashes root), ''**'', ''*.csproj'']"

section \<open>What the functions compute\<close>

lemmas promise_defs = resolved_def rejected_def await_def started_def try_catch_def
  ToBoolean_promise_def ToBoolean_string_def

lemmas host_call_defs = fs_promises_stat_def fast_glob_def window_showQuickPick_def
  window_showInputBox_def window_showErrorMessage_def client_sendRequest_GetAzureFunctions_def
  client_sendRequest_InsertSqlBinding_def

lemmas example_defs = ws_host_def one_host_def empty_host_def special_host_def posix_host_def
  ui_host_def stat_of_def glob_of_def regular_def ENOENT_def hostFileName_def cs_file_def
  escape_glob_def dirname_with_def to_backslashes_def backslash_def special_root_def
  special_pattern_def special_project_def ok_def listed_def failed_def not_listed_def

text \<open>The marker check issues one \<^verbatim>\<open>stat\<close> and settles with what the \<^verbatim>\<open>stat\<close> says.\<close>

lemma isFunctionProject_eq:
  "isFunctionProject h D =
     Promise [Stat (path_join h [D, hostFileName])]
       (case stat h (path_join h [D, hostFileName]) of
          Inl e \<Rightarrow> if code e = Some ''ENOENT'' then Inr False else Inl e
        | Inr st \<Rightarrow> Inr (isFile st))"
  by (simp add: isFunctionProject_def fileExist_def getFileStatus_def promise_defs host_call_defs
      split: sum.splits)

text \<open>
  The loop over two or more candidates ends in its first round: the promise it tests is
  truthy, so the first candidate is returned, after the \<^verbatim>\<open>stat\<close> of the un-awaited
  check has been issued.
\<close>

lemma projectLoop_first:
  "projectLoop h (p # ps) = Promise (calls (isFunctionProject h (fsPath p))) (Inr (Some p))"
  by (simp add: promise_defs)

text \<open>\<open>getFunctionsProject\<close> in a workspace, by the number of files the glob finds.\<close>

lemma getFunctionsProject_eq:
  assumes "getWorkspaceFolder h file = Some folder"
  shows "getFunctionsProject h file =
     (case glob h (projFilter_of h (fsPath (uri folder))) of
        Inl e \<Rightarrow> Promise [Glob (projFilter_of h (fsPath (uri folder)))] (Inl e)
      | Inr paths \<Rightarrow>
          (case map (\<lambda>p. Uri_file h (path_resolve h p)) paths of
             [] \<Rightarrow> Promise [Glob (projFilter_of h (fsPath (uri folder)))] (Inr None)
           | [p] \<Rightarrow>
               Promise [Glob (projFilter_of h (fsPath (uri folder))),
                        Stat (path_join h [path_dirname h (fsPath p), hostFileName])]
                 (case stat h (path_join h [path_dirname h (fsPath p), hostFileName]) of
                    Inl e \<Rightarrow> if code e = Some ''ENOENT'' then Inr (Some p) else Inl e
                  | Inr st \<Rightarrow> Inr (Some p))
           | p # q # ps \<Rightarrow>
               Promise [Glob (projFilter_of h (fsPath (uri folder))),
                        Stat (path_join h [fsPath p, hostFileName])]
                 (Inr (Some p))))"
proof (cases "glob h (projFilter_of h (fsPath (uri folder)))")
  case (Inl e)
  with assms show ?thesis
    by (simp add: getFunctionsProject_def projFilter_of_def Let_def promise_defs host_call_defs)
next
  case (Inr paths)
  show ?thesis
  proof (cases paths)
    case Nil
    with assms Inr show ?thesis
      by (simp add: getFunctionsProject_def projFilter_of_def Let_def promise_defs host_call_defs)
  next
    case (Cons a as)
    show ?thesis
    proof (cases as)
      case Nil
      with assms Inr Cons show ?thesis
        by (simp add: getFunctionsProject_def projFilter_of_def Let_def isFunctionProject_eq
            promise_defs host_call_defs split: sum.splits)
    next
      case (Cons b bs)
      with assms Inr \<open>paths = a # as\<close> show ?thesis
        by (simp add: getFunctionsProject_def projFilter_of_def Let_def isFunctionProject_eq
            projectLoop_first promise_defs host_call_defs)
    qed
  qed
qed

lemma one_host_folder:
  "getWorkspaceFolder (one_host m) \<lparr>fsPath = ''/one/Function1.cs''\<rparr> =
     Some \<lparr>uri = \<lparr>fsPath = ''/one''\<rparr>\<rparr>"
  by (simp add: example_defs)

lemma one_host_glob:
  "glob (one_host m) (projFilter_of (one_host m) (fsPath (uri \<lparr>uri = \<lparr>fsPath = ''/one''\<rparr>\<rparr>))) =
     Inr [''/one/App.csproj'']"
  by (simp add: projFilter_of_def replace_backslashes_def example_defs)

lemma one_host_marker:
  "stat (one_host m)
     (path_join (one_host m) [path_dirname (one_host m) ''/one/App.csproj'', hostFileName]) = m"
  by (simp add: example_defs)

subsection \<open>Two or more candidates\<close>

text \<open>
  Claim C1 says that with two or more candidates the result is the first one whose
  directory holds a regular file \<^verbatim>\<open>host.json\<close>, and \<^verbatim>\<open>/ws/b/Bar.csproj\<close> in the
  end-to-end scenario. On that scenario the code returns \<^verbatim>\<open>/ws/a/Foo.csproj\<close>, the first
  candidate, which has no \<^verbatim>\<open>host.json\<close> beside it: line 152 tests the promise of
  \<open>isFunctionProject\<close>, which is truthy, and hands it the project file's path where line
  164 hands it the directory, so the only \<^verbatim>\<open>stat\<close> issued is of
  \<^verbatim>\<open>/ws/a/Foo.csproj/host.json\<close>, and its outcome is not looked at.
\<close>

theorem getFunctionsProject_scenario:
  "getFunctionsProject ws_host cs_file =
     Promise [Glob ''/ws/**/*.csproj'', Stat ''/ws/a/Foo.csproj/host.json'']
       (Inr (Some \<lparr>fsPath = ''/ws/a/Foo.csproj''\<rparr>))"
  by (simp add: getFunctionsProject_eq [of _ _ "\<lparr>uri = \<lparr>fsPath = ''/ws''\<rparr>\<rparr>"] projFilter_of_def
      replace_backslashes_def example_defs)

subsection \<open>The marker check\<close>

text \<open>
  Claim C3: \<open>isFunctionProject D\<close> is false when the \<^verbatim>\<open>stat\<close> of \<^verbatim>\<open>D/host.json\<close> fails with
  the not-found error \<^verbatim>\<open>ENOENT\<close>, true when \<^verbatim>\<open>D/host.json\<close> is a regular file, and
  rejects with the error of the \<^verbatim>\<open>stat\<close> when that error is any other than not-found.
\<close>

theorem isFunctionProject_marker:
  "(stat h (path_join h [D, hostFileName]) = Inl e \<and> code e = Some ''ENOENT''
      \<longrightarrow> settled (isFunctionProject h D) = Inr False) \<and>
   (stat h (path_join h [D, hostFileName]) = Inr st \<and> isFile st
      \<longrightarrow> settled (isFunctionProject h D) = Inr True) \<and>
   (stat h (path_join h [D, hostFileName]) = Inl e \<and> code e \<noteq> Some ''ENOENT''
      \<longrightarrow> settled (isFunctionProject h D) = Inl e)"
  by (simp add: isFunctionProject_eq)

text \<open>
  In the workspace \<open>ws_host\<close>: \<^verbatim>\<open>/ws/a\<close> has no marker, \<^verbatim>\<open>/ws/b\<close> has one, and the marker
  of \<^verbatim>\<open>/ws/c\<close> cannot be read.
\<close>

theorem isFunctionProject_marker_witness:
  "stat ws_host (path_join ws_host [''/ws/a'', hostFileName]) = Inl (SystemError ''ENOENT'') \<and>
   settled (isFunctionProject ws_host ''/ws/a'') = Inr False \<and>
   stat ws_host (path_join ws_host [''/ws/b'', hostFileName]) = Inr \<lparr>kind = RegularFile\<rparr> \<and>
   settled (isFunctionProject ws_host ''/ws/b'') = Inr True \<and>
   stat ws_host (path_join ws_host [''/ws/c'', hostFileName]) = Inl (SystemError ''EACCES'') \<and>
   settled (isFunctionProject ws_host ''/ws/c'') = Inl (SystemError ''EACCES'')"
  using isFunctionProject_marker [of ws_host "''/ws/a''" "SystemError ''ENOENT''"]
    isFunctionProject_marker [of ws_host "''/ws/b''" _ "\<lparr>kind = RegularFile\<rparr>"]
    isFunctionProject_marker [of ws_host "''/ws/c''" "SystemError ''EACCES''"]
  by (simp add: example_defs isFile_def)

subsection \<open>Exactly one candidate\<close>

text \<open>
  Claim C4, as amended: when the glob finds exactly one project file and the \<^verbatim>\<open>stat\<close> of
  \<^verbatim>\<open>host.json\<close> in its directory succeeds or fails with not-found, the result is that
  file, whether or not the marker exists and whatever kind of file it is; when that
  \<^verbatim>\<open>stat\<close> fails with any other error, the call fails with that error (the check of line
  164 is awaited).
\<close>

theorem single_candidate_returned:
  assumes "getWorkspaceFolder h file = Some folder"
    and "glob h (projFilter_of h (fsPath (uri folder))) = Inr [p]"
  shows "((\<forall>e. stat h (path_join h
                 [path_dirname h (fsPath (Uri_file h (path_resolve h p))), hostFileName]) = Inl e
            \<longrightarrow> code e = Some ''ENOENT'')
          \<longrightarrow> settled (getFunctionsProject h file) = Inr (Some (Uri_file h (path_resolve h p)))) \<and>
         (\<forall>e. stat h (path_join h
                 [path_dirname h (fsPath (Uri_file h (path_resolve h p))), hostFileName]) = Inl e \<and>
               code e \<noteq> Some ''ENOENT''
            \<longrightarrow> settled (getFunctionsProject h file) = Inl e)"
  using assms by (simp add: getFunctionsProject_eq split: sum.splits)

text \<open>
  With no marker, with a regular file as marker, with a directory of that name, and with
  a marker that is a symbolic link to itself (\<^verbatim>\<open>ELOOP\<close>).
\<close>

theorem single_candidate_returned_witness:
  "settled (getFunctionsProject (one_host (Inl (SystemError ''ENOENT'')))
      \<lparr>fsPath = ''/one/Function1.cs''\<rparr>) = Inr (Some \<lparr>fsPath = ''/one/App.csproj''\<rparr>) \<and>
   settled (getFunctionsProject (one_host (Inr \<lparr>kind = RegularFile\<rparr>))
      \<lparr>fsPath = ''/one/Function1.cs''\<rparr>) = Inr (Some \<lparr>fsPath = ''/one/App.csproj''\<rparr>) \<and>
   settled (getFunctionsProject (one_host (Inr \<lparr>kind = Directory\<rparr>))
      \<lparr>fsPath = ''/one/Function1.cs''\<rparr>) = Inr (Some \<lparr>fsPath = ''/one/App.csproj''\<rparr>) \<and>
   settled (getFunctionsProject (one_host (Inl (SystemError ''ELOOP'')))
      \<lparr>fsPath = ''/one/Function1.cs''\<rparr>) = Inl (SystemError ''ELOOP'')"
proof -
  have resolve: "Uri_file (one_host m) (path_resolve (one_host m) ''/one/App.csproj'') =
      \<lparr>fsPath = ''/one/App.csproj''\<rparr>" for m
    by (simp add: example_defs)
  show ?thesis
    using single_candidate_returned
        [OF one_host_folder one_host_glob, of "Inl (SystemError ''ENOENT'')"]
      single_candidate_returned
        [OF one_host_folder one_host_glob, of "Inr \<lparr>kind = RegularFile\<rparr>"]
      single_candidate_returned
        [OF one_host_folder one_host_glob, of "Inr \<lparr>kind = Directory\<rparr>"]
      single_candidate_returned
        [OF one_host_folder one_host_glob, of "Inl (SystemError ''ELOOP'')"]
    by (simp add: one_host_marker resolve)
qed

text \<open>
  The claim as stated fails where the marker cannot be read: the glob finds the one
  project file, the \<^verbatim>\<open>stat\<close> of \<^verbatim>\<open>/one/host.json\<close> fails with \<^verbatim>\<open>EACCES\<close>, and the call
  rejects with that error instead of returning the file.
\<close>

theorem single_candidate_stat_error_counterexample:
  "glob (one_host (Inl (SystemError ''EACCES''))) ''/one/**/*.csproj'' = Inr [''/one/App.csproj''] \<and>
   getFunctionsProject (one_host (Inl (SystemError ''EACCES''))) \<lparr>fsPath = ''/one/Function1.cs''\<rparr> =
     Promise [Glob ''/one/**/*.csproj'', Stat ''/one/host.json''] (Inl (SystemError ''EACCES''))"
  by (simp add: getFunctionsProject_eq [OF one_host_folder] one_host_glob)
    (simp add: projFilter_of_def replace_backslashes_def example_defs)

subsection \<open>No candidate, no workspace\<close>

text \<open>
  Claim C5: when the glob finds no project file, the result is absent (\<^verbatim>\<open>undefined\<close>),
  not an error; the glob is the only call issued.
\<close>

theorem no_candidate_absent:
  assumes "getWorkspaceFolder h file = Some folder"
    and "glob h (projFilter_of h (fsPath (uri folder))) = Inr []"
  shows "getFunctionsProject h file =
     Promise [Glob (projFilter_of h (fsPath (uri folder)))] (Inr None)"
  using assms by (simp add: getFunctionsProject_eq)

theorem no_candidate_absent_witness:
  "getFunctionsProject empty_host \<lparr>fsPath = ''/empty/Function1.cs''\<rparr> =
     Promise [Glob ''/empty/**/*.csproj''] (Inr None)"
proof -
  have folder: "getWorkspaceFolder empty_host \<lparr>fsPath = ''/empty/Function1.cs''\<rparr> =
      Some \<lparr>uri = \<lparr>fsPath = ''/empty''\<rparr>\<rparr>"
    by (simp add: example_defs)
  have found: "glob empty_host
      (projFilter_of empty_host (fsPath (uri \<lparr>uri = \<lparr>fsPath = ''/empty''\<rparr>\<rparr>))) = Inr []"
    by (simp add: example_defs)
  have "projFilter_of empty_host ''/empty'' = ''/empty/**/*.csproj''"
    by (simp add: projFilter_of_def replace_backslashes_def example_defs)
  with no_candidate_absent [OF folder found] show ?thesis
    by simp
qed

text \<open>
  Claim C6: when the editor has no workspace folder for the file, the call fails at once:
  it rejects (with the \<^verbatim>\<open>TypeError\<close> of reading \<^verbatim>\<open>folder.uri\<close> on line 138) and issues no
  call at all, so neither a glob nor a \<^verbatim>\<open>stat\<close> touches the file system.
\<close>

theorem no_workspace_fails_fast:
  assumes "getWorkspaceFolder h file = None"
  shows "getFunctionsProject h file = Promise [] (Inl TypeError)"
  using assms by (simp add: getFunctionsProject_def rejected_def)

theorem no_workspace_fails_fast_witness:
  "getFunctionsProject empty_host \<lparr>fsPath = ''/tmp/Function1.cs''\<rparr> = Promise [] (Inl TypeError)"
proof -
  have "getWorkspaceFolder empty_host \<lparr>fsPath = ''/tmp/Function1.cs''\<rparr> = None"
    by (simp add: example_defs)
  then show ?thesis
    by (rule no_workspace_fails_fast)
qed

subsection \<open>The root path and the paths of the glob\<close>

lemma replace_backslashes_none: "CHR 0x5C \<notin> set (replace_backslashes s)"
  by (auto simp add: replace_backslashes_def)

lemma replace_backslashes_nth:
  "i < length s \<Longrightarrow>
     replace_backslashes s ! i = (if s ! i = CHR 0x5C then CHR ''/'' else s ! i)"
  by (simp add: replace_backslashes_def)

lemma replace_backslashes_length: "length (replace_backslashes s) = length s"
  by (simp add: replace_backslashes_def)

text \<open>
  Claim C9: before the glob, the workspace root has every backslash replaced by a forward
  slash (no backslash is left, nothing else changes) and is passed through the glob
  library's \<open>escapePath\<close>, which escapes the glob-special characters; the pattern of
  the one glob call is that escaped root joined with \<^verbatim>\<open>**\<close> and \<^verbatim>\<open>*.csproj\<close>. Every
  path that the glob returns is converted by \<^verbatim>\<open>path.resolve\<close> (and \<^verbatim>\<open>Uri.file\<close>), which
  gives the platform's native form, before it is used: the project returned and every
  path handed to \<^verbatim>\<open>stat\<close> come from a converted path.
\<close>

theorem root_normalised_before_glob:
  assumes "getWorkspaceFolder h file = Some folder"
  shows "CHR 0x5C \<notin> set (replace_backslashes (fsPath (uri folder))) \<and>
     length (replace_backslashes (fsPath (uri folder))) = length (fsPath (uri folder)) \<and>
     (\<forall>i < length (fsPath (uri folder)).
        replace_backslashes (fsPath (uri folder)) ! i =
          (if fsPath (uri folder) ! i = CHR 0x5C then CHR ''/'' else fsPath (uri folder) ! i)) \<and>
     hd (calls (getFunctionsProject h file)) =
       Glob (posix_join h
               [escapePath h (replace_backslashes (fsPath (uri folder))), ''**'', ''*.csproj'']) \<and>
     \<not> list_ex is_glob (tl (calls (getFunctionsProject h file))) \<and>
     (\<forall>paths.
        glob h (posix_join h
                 [escapePath h (replace_backslashes (fsPath (uri folder))), ''**'', ''*.csproj''])
          = Inr paths \<longrightarrow>
        (\<forall>found. settled (getFunctionsProject h file) = Inr (Some found) \<longrightarrow>
           (\<exists>p \<in> set paths. found = Uri_file h (path_resolve h p))) \<and>
        (\<forall>q. Stat q \<in> set (calls (getFunctionsProject h file)) \<longrightarrow>
           (\<exists>p \<in> set paths.
              q = path_join h [fsPath (Uri_file h (path_resolve h p)), hostFileName] \<or>
              q = path_join h
                    [path_dirname h (fsPath (Uri_file h (path_resolve h p))), hostFileName])))"
proof -
  let ?pat = "projFilter_of h (fsPath (uri folder))"
  have pat: "posix_join h
      [escapePath h (replace_backslashes (fsPath (uri folder))), ''**'', ''*.csproj''] = ?pat"
    by (simp add: projFilter_of_def)
  have first: "hd (calls (getFunctionsProject h file)) = Glob ?pat"
    by (simp add: getFunctionsProject_eq [OF assms] split: sum.splits list.splits)
  have rest: "\<not> list_ex is_glob (tl (calls (getFunctionsProject h file)))"
    by (simp add: getFunctionsProject_eq [OF assms] split: sum.splits list.splits)
  have uses: "(\<forall>found. settled (getFunctionsProject h file) = Inr (Some found) \<longrightarrow>
           (\<exists>p \<in> set paths. found = Uri_file h (path_resolve h p))) \<and>
        (\<forall>q. Stat q \<in> set (calls (getFunctionsProject h file)) \<longrightarrow>
           (\<exists>p \<in> set paths.
              q = path_join h [fsPath (Uri_file h (path_resolve h p)), hostFileName] \<or>
              q = path_join h
                    [path_dirname h (fsPath (Uri_file h (path_resolve h p))), hostFileName]))"
    if found: "glob h ?pat = Inr paths" for paths
  proof (cases paths)
    case Nil
    with found show ?thesis
      by (simp add: getFunctionsProject_eq [OF assms])
  next
    case (Cons a as)
    show ?thesis
    proof (cases as)
      case Nil
      with found Cons show ?thesis
        by (auto simp add: getFunctionsProject_eq [OF assms] split: sum.splits if_splits)
    next
      case (Cons b bs)
      with found \<open>paths = a # as\<close> show ?thesis
        by (auto simp add: getFunctionsProject_eq [OF assms])
    qed
  qed
  show ?thesis
    unfolding pat using first rest uses
    by (simp add: replace_backslashes_none replace_backslashes_nth replace_backslashes_length)
qed

text \<open>
  On Windows, with the root \<^verbatim>\<open>C:\ws[1]\a*b\<close>: the glob gets
  \<^verbatim>\<open>C:/ws\[1\]/a\*b/**/*.csproj\<close>, and the file it finds, \<^verbatim>\<open>C:/ws[1]/a*b/App.csproj\<close>,
  is used as \<^verbatim>\<open>C:\ws[1]\a*b\App.csproj\<close>.
\<close>

theorem root_normalised_before_glob_witness:
  "calls (getFunctionsProject special_host \<lparr>fsPath = special_root @ [backslash] @ ''Function1.cs''\<rparr>) =
     [Glob special_pattern, Stat (special_root @ [backslash] @ ''host.json'')] \<and>
   settled (getFunctionsProject special_host \<lparr>fsPath = special_root @ [backslash] @ ''Function1.cs''\<rparr>) =
     Inr (Some \<lparr>fsPath = special_project\<rparr>) \<and>
   escapePath special_host (replace_backslashes special_root) =
     ''C:/ws'' @ [backslash] @ ''[1'' @ [backslash] @ '']/a'' @ [backslash] @ ''*b''"
proof -
  let ?f = "\<lparr>fsPath = special_root @ [backslash] @ ''Function1.cs''\<rparr>"
  have folder: "getWorkspaceFolder special_host ?f = Some \<lparr>uri = \<lparr>fsPath = special_root\<rparr>\<rparr>"
    by (simp add: example_defs)
  have pat: "posix_join special_host
      [escapePath special_host (replace_backslashes special_root), ''**'', ''*.csproj''] = special_pattern"
    by (simp add: replace_backslashes_def example_defs)
  have esc: "escapePath special_host (replace_backslashes special_root) =
     ''C:/ws'' @ [backslash] @ ''[1'' @ [backslash] @ '']/a'' @ [backslash] @ ''*b''"
    by (simp add: replace_backslashes_def example_defs)
  have run: "getFunctionsProject special_host ?f =
      Promise [Glob special_pattern, Stat (special_root @ [backslash] @ ''host.json'')]
        (Inr (Some \<lparr>fsPath = special_project\<rparr>))"
    by (simp add: getFunctionsProject_eq [of _ _ "\<lparr>uri = \<lparr>fsPath = special_root\<rparr>\<rparr>"]
        projFilter_of_def replace_backslashes_def example_defs)
  from root_normalised_before_glob [OF folder]
  have "hd (calls (getFunctionsProject special_host ?f)) = Glob special_pattern"
    using pat by simp
  with run esc show ?thesis
    by simp
qed

subsection \<open>The insert flow\<close>

text \<open>
  The command's run is its own flow with the calls of the un-awaited lookup put in: the
  lookup issues file-system calls only, the command's own flow none, and the outcome is
  that of the own flow.
\<close>

lemmas flow_defs = insertSqlInputBinding_def getAzureFunctions_def return_if_not_def
  binding_answer_def function_answer_def object_answer_def setting_answer_def

lemmas asked_defs = asked_listing_def asked_function_def asked_object_def asked_setting_def

lemmas answer_defs = binding_answer_def function_answer_def object_answer_def setting_answer_def
  object_options_def setting_options_def

lemma getAzureFunctions_eq:
  "getAzureFunctions h (Some file) =
     Promise [GetAzureFunctionsRequest \<lparr>filePath = fsPath file\<rparr>]
       (case sendGetAzureFunctions h \<lparr>filePath = fsPath file\<rparr> of
          Inl e \<Rightarrow> Inl e
        | Inr r \<Rightarrow> if success r then Inr (azureFunctions r) else Inl (Error (errorMessage r)))"
  by (simp add: getAzureFunctions_def promise_defs host_call_defs split: sum.splits)

lemma insertSqlInputBinding_None:
  "insertSqlInputBinding h None =
     (case activeTextEditor h of
        None \<Rightarrow> Promise [] (Inl TypeError)
      | Some file \<Rightarrow> insertSqlInputBinding h (Some file))"
  by (simp add: insertSqlInputBinding_def rejected_def split: option.splits)

lemma insertSqlInputBinding_Some:
  "insertSqlInputBinding h (Some file) =
     detached (resumes_after h) (getFunctionsProject h file) (own_run h file)"
  by (simp add: flow_defs own_run_def asked_defs params_of_def object_options_def
      setting_options_def promise_defs host_call_defs Let_def split: option.splits sum.splits)

lemma lookup_calls: "e \<in> set (calls (getFunctionsProject h file)) \<Longrightarrow> is_file_system_call e"
proof (cases "getWorkspaceFolder h file")
  case None
  assume "e \<in> set (calls (getFunctionsProject h file))"
  with None show ?thesis
    by (simp add: getFunctionsProject_def rejected_def)
next
  case (Some folder)
  assume "e \<in> set (calls (getFunctionsProject h file))"
  then show ?thesis
    by (auto simp add: getFunctionsProject_eq [OF Some] split: sum.splits list.splits)
qed

lemma own_calls: "e \<in> set (calls (own_run h file)) \<Longrightarrow> \<not> is_file_system_call e"
  by (auto simp add: own_run_def asked_defs split: sum.splits option.splits if_splits)

lemma settled_detached: "settled (detached k p q) = settled q"
  by (simp add: detached_def)

lemma set_calls_detached: "set (calls (detached k p q)) = set (calls p) \<union> set (calls q)"
proof -
  have "set (take 1 (calls p)) \<union> set (drop 1 (calls p)) = set (calls p)"
    by (metis append_take_drop_id set_append)
  moreover have "set (take (Suc k) (calls q)) \<union> set (drop (Suc k) (calls q)) = set (calls q)"
    by (metis append_take_drop_id set_append)
  ultimately show ?thesis
    by (auto simp add: detached_def)
qed

lemma filter_calls_detached:
  assumes "\<And>e. e \<in> set (calls p) \<Longrightarrow> \<not> P e"
  shows "filter P (calls (detached k p q)) = filter P (calls q)"
proof -
  have "filter P (take 1 (calls p)) = []" "filter P (drop 1 (calls p)) = []"
    using assms by (auto simp add: filter_empty_conv dest: in_set_takeD in_set_dropD)
  moreover have "filter P (take (Suc k) (calls q)) @ filter P (drop (Suc k) (calls q)) =
      filter P (calls q)"
    by (metis append_take_drop_id filter_append)
  ultimately show ?thesis
    by (simp add: detached_def)
qed

lemma settled_run: "settled (insertSqlInputBinding h (Some file)) = settled (own_run h file)"
  by (simp add: insertSqlInputBinding_Some settled_detached)

lemma own_call_of_run:
  "\<not> is_file_system_call e \<Longrightarrow>
     e \<in> set (calls (insertSqlInputBinding h (Some file))) \<longleftrightarrow> e \<in> set (calls (own_run h file))"
  by (auto simp add: insertSqlInputBinding_Some set_calls_detached dest: lookup_calls)

lemma own_calls_of_run:
  "filter (\<lambda>e. \<not> is_file_system_call e) (calls (insertSqlInputBinding h (Some file))) =
     calls (own_run h file)"
proof -
  have "filter (\<lambda>e. \<not> is_file_system_call e) (calls (own_run h file)) = calls (own_run h file)"
    by (simp add: filter_id_conv own_calls)
  then show ?thesis
    by (simp add: insertSqlInputBinding_Some filter_calls_detached lookup_calls)
qed

lemma filter_calls_of_run:
  assumes "\<And>e. P e \<Longrightarrow> \<not> is_file_system_call e"
  shows "filter P (calls (insertSqlInputBinding h (Some file))) = filter P (calls (own_run h file))"
  using assms by (auto simp add: insertSqlInputBinding_Some intro!: filter_calls_detached dest: lookup_calls)

lemma own_run_request:
  assumes "InsertSqlBindingRequest p \<in> set (calls (own_run h f))"
  shows "\<exists>r. sendGetAzureFunctions h \<lparr>filePath = fsPath f\<rparr> = Inr r \<and> success r \<and>
      azureFunctions r \<noteq> [] \<and>
      function_answer h (azureFunctions r) = Some (functionName p) \<and> functionName p \<noteq> [] \<and>
      object_answer h = Some (objectName p) \<and> objectName p \<noteq> [] \<and>
      setting_answer h = Some (connectionStringSetting p) \<and> connectionStringSetting p \<noteq> [] \<and>
      p = params_of h f (functionName p) (objectName p) (connectionStringSetting p)"
  using assms
  by (auto simp add: own_run_def asked_defs params_of_def
      split: sum.splits option.splits if_splits)

lemma own_run_failure:
  assumes "InsertSqlBindingRequest p \<in> set (calls (own_run h f))"
    and "sendInsertSqlBinding h p = Inr res" and "\<not> success res"
  shows "settled (own_run h f) = Inr () \<and>
     filter is_error_message (calls (own_run h f)) = [ShowErrorMessage (errorMessage res)] \<and>
     last (calls (own_run h f)) = ShowErrorMessage (errorMessage res)"
  using assms
  by (auto simp add: own_run_def asked_defs split: sum.splits option.splits if_splits)

lemma request_of_run:
  "InsertSqlBindingRequest p \<in> set (calls (insertSqlInputBinding h u)) \<Longrightarrow>
     \<exists>f. (u = Some f \<or> u = None \<and> activeTextEditor h = Some f) \<and>
       insertSqlInputBinding h u = insertSqlInputBinding h (Some f) \<and>
       InsertSqlBindingRequest p \<in> set (calls (own_run h f))"
proof (cases u)
  case (Some f)
  assume "InsertSqlBindingRequest p \<in> set (calls (insertSqlInputBinding h u))"
  with Some show ?thesis
    by (simp add: own_call_of_run)
next
  case None
  assume "InsertSqlBindingRequest p \<in> set (calls (insertSqlInputBinding h u))"
  with None show ?thesis
    by (auto simp add: insertSqlInputBinding_None own_call_of_run split: option.splits)
qed

lemma ui_host_lookup:
  "getFunctionsProject (ui_host b f ob s l i) cs_file =
     Promise [Glob ''/ws/**/*.csproj'', Stat ''/ws/a/Foo.csproj/host.json'']
       (Inr (Some \<lparr>fsPath = ''/ws/a/Foo.csproj''\<rparr>))"
  by (simp add: getFunctionsProject_eq [of _ _ "\<lparr>uri = \<lparr>fsPath = ''/ws''\<rparr>\<rparr>"] projFilter_of_def
      replace_backslashes_def example_defs)

lemma ui_host_lookup_later:
  "getFunctionsProject ((ui_host b f ob s l i)\<lparr>resumes_after := k\<rparr>) cs_file =
     Promise [Glob ''/ws/**/*.csproj'', Stat ''/ws/a/Foo.csproj/host.json'']
       (Inr (Some \<lparr>fsPath = ''/ws/a/Foo.csproj''\<rparr>))"
  by (simp add: getFunctionsProject_eq [of _ _ "\<lparr>uri = \<lparr>fsPath = ''/ws''\<rparr>\<rparr>"] projFilter_of_def
      replace_backslashes_def example_defs)

lemmas run_defs = own_run_def detached_def asked_defs params_of_def
  answer_defs example_defs

text \<open>
  What the guards of lines 89, 99 and 109 ensure: an insert request in the trace carries a
  non-empty function name, object name and setting name, each the answer to its prompt,
  after a listing that succeeded with at least one function; and when one of these three
  answers is missing or empty, the command returns normally with no insert request and no
  error message.
\<close>

lemma insert_request_values_resolved:
  assumes "InsertSqlBindingRequest p \<in> set (calls (insertSqlInputBinding h u))"
  shows "\<exists>f r.
      (u = Some f \<or> u = None \<and> activeTextEditor h = Some f) \<and>
      sendGetAzureFunctions h \<lparr>filePath = fsPath f\<rparr> = Inr r \<and> success r \<and>
      azureFunctions r \<noteq> [] \<and>
      function_answer h (azureFunctions r) = Some (functionName p) \<and> functionName p \<noteq> [] \<and>
      object_answer h = Some (objectName p) \<and> objectName p \<noteq> [] \<and>
      setting_answer h = Some (connectionStringSetting p) \<and> connectionStringSetting p \<noteq> [] \<and>
      p = params_of h f (functionName p) (objectName p) (connectionStringSetting p)"
proof -
  from request_of_run [OF assms] obtain f where
    "u = Some f \<or> u = None \<and> activeTextEditor h = Some f"
    "InsertSqlBindingRequest p \<in> set (calls (own_run h f))"
    by blast
  with own_run_request [of p h f] show ?thesis
    by blast
qed

lemma guarded_prompts_abort:
  assumes "sendGetAzureFunctions h \<lparr>filePath = fsPath doc\<rparr> = Inr r" "success r"
    "azureFunctions r \<noteq> []"
    "\<not> ToBoolean_string (function_answer h (azureFunctions r)) \<or>
     \<not> ToBoolean_string (object_answer h) \<or>
     \<not> ToBoolean_string (setting_answer h)"
  shows "settled (insertSqlInputBinding h (Some doc)) = Inr () \<and>
      \<not> list_ex is_insert_request (calls (insertSqlInputBinding h (Some doc))) \<and>
      \<not> list_ex is_error_message (calls (insertSqlInputBinding h (Some doc)))"
proof -
  have own: "settled (own_run h doc) = Inr () \<and>
      filter is_insert_request (calls (own_run h doc)) = [] \<and>
      filter is_error_message (calls (own_run h doc)) = []"
    using assms
    by (auto simp add: own_run_def asked_defs ToBoolean_string_def
        split: sum.splits option.splits if_splits)
  have "filter is_insert_request (calls (insertSqlInputBinding h (Some doc))) = []"
    using own by (subst filter_calls_of_run) (auto elim: is_insert_request.elims)
  moreover have "filter is_error_message (calls (insertSqlInputBinding h (Some doc))) = []"
    using own by (subst filter_calls_of_run) (auto elim: is_error_message.elims)
  ultimately show ?thesis
    using own by (simp add: settled_run list_ex_iff filter_empty_conv)
qed

text \<open>
  Claim C2 says that the insert request is never sent unless a function name, a binding
  direction, a target object and a setting name have all been resolved, so that it is not
  issued when one of these prompt values is missing or cancelled. The code sends it with
  the binding-type picker dismissed: the picker of lines 62--65 has no guard like those of
  lines 89, 99 and 109, and line 117 turns the missing answer into direction output.
\<close>

theorem cancelled_binding_prompt_request_sent:
  "binding_answer
     (ui_host None (Some ''Function1'') (Some ''[dbo].[Products]'')
        (Some ''SqlConnectionString'') (listed [''Function1'']) ok) = None \<and>
   insertSqlInputBinding
     (ui_host None (Some ''Function1'') (Some ''[dbo].[Products]'')
        (Some ''SqlConnectionString'') (listed [''Function1'']) ok)
     (Some cs_file) =
     Promise
       [Glob ''/ws/**/*.csproj'',
        ShowQuickPick [''input'', ''output''] ''Type of binding:'',
        Stat ''/ws/a/Foo.csproj/host.json'',
        GetAzureFunctionsRequest \<lparr>filePath = ''/ws/b/Function1.cs''\<rparr>,
        ShowQuickPick [''Function1''] ''Azure function in current file to add sql binding to:'',
        ShowInputBox \<lparr>prompt = ''Table to put in binding'',
          value = Some ''[dbo].[placeholder]'', ignoreFocusOut = True\<rparr>,
        ShowInputBox \<lparr>prompt = ''Connection string setting name'', value = None,
          ignoreFocusOut = True\<rparr>,
        InsertSqlBindingRequest
          \<lparr>filePath = ''/ws/b/Function1.cs'', functionName = ''Function1'',
           objectName = ''[dbo].[Products]'', bindingType = BindingType_output,
           connectionStringSetting = ''SqlConnectionString''\<rparr>]
       (Inr ())"
  by (simp add: insertSqlInputBinding_Some ui_host_lookup) (simp add: run_defs)

text \<open>
  Claim C7: when the language service answers with the success flag false, the listing
  path rejects with an error that carries the response's error message and shows no
  message, while the insert path returns normally after showing the response's error
  message, the one message it shows and the last of the command's own calls.
\<close>

theorem remote_failure_asymmetric:
  "(sendGetAzureFunctions h \<lparr>filePath = fsPath doc\<rparr> = Inr r \<and> \<not> success r \<longrightarrow>
      getAzureFunctions h (Some doc) =
        Promise [GetAzureFunctionsRequest \<lparr>filePath = fsPath doc\<rparr>] (Inl (Error (errorMessage r)))) \<and>
   (InsertSqlBindingRequest p \<in> set (calls (insertSqlInputBinding h u)) \<and>
    sendInsertSqlBinding h p = Inr res \<and> \<not> success res \<longrightarrow>
      settled (insertSqlInputBinding h u) = Inr () \<and>
      filter is_error_message (calls (insertSqlInputBinding h u)) =
        [ShowErrorMessage (errorMessage res)] \<and>
      last (filter (\<lambda>e. \<not> is_file_system_call e) (calls (insertSqlInputBinding h u))) =
        ShowErrorMessage (errorMessage res))"
proof -
  have "settled (insertSqlInputBinding h u) = Inr () \<and>
      filter is_error_message (calls (insertSqlInputBinding h u)) =
        [ShowErrorMessage (errorMessage res)] \<and>
      last (filter (\<lambda>e. \<not> is_file_system_call e) (calls (insertSqlInputBinding h u))) =
        ShowErrorMessage (errorMessage res)"
    if sent: "InsertSqlBindingRequest p \<in> set (calls (insertSqlInputBinding h u))"
      and resp: "sendInsertSqlBinding h p = Inr res" "\<not> success res"
  proof -
    from request_of_run [OF sent] obtain f where
      run: "insertSqlInputBinding h u = insertSqlInputBinding h (Some f)"
      and own: "InsertSqlBindingRequest p \<in> set (calls (own_run h f))"
      by blast
    have "filter is_error_message (calls (insertSqlInputBinding h (Some f))) =
        filter is_error_message (calls (own_run h f))"
      by (rule filter_calls_of_run) (auto elim: is_error_message.elims)
    with own_run_failure [OF own resp] show ?thesis
      by (simp add: run settled_run own_calls_of_run)
  qed
  then show ?thesis
    by (simp add: getAzureFunctions_eq)
qed

text \<open>
  A listing that fails, and an insert that fails in a run where the lookup of line 57 is
  resumed only after the message has been shown.
\<close>

theorem remote_failure_asymmetric_witness:
  "getAzureFunctions
     (ui_host None None None None (not_listed ''cannot parse file'') ok) (Some cs_file) =
     Promise [GetAzureFunctionsRequest \<lparr>filePath = ''/ws/b/Function1.cs''\<rparr>]
       (Inl (Error ''cannot parse file'')) \<and>
   insertSqlInputBinding
      ((ui_host (Some ''input'') (Some ''Function1'') (Some ''[dbo].[Products]'')
         (Some ''SqlConnectionString'') (listed [''Function1'']) (failed ''binding exists''))
       \<lparr>resumes_after := 6\<rparr>)
      (Some cs_file) =
     Promise
       [Glob ''/ws/**/*.csproj'',
        ShowQuickPick [''input'', ''output''] ''Type of binding:'',
        GetAzureFunctionsRequest \<lparr>filePath = ''/ws/b/Function1.cs''\<rparr>,
        ShowQuickPick [''Function1''] ''Azure function in current file to add sql binding to:'',
        ShowInputBox \<lparr>prompt = ''Object to put in binding:'',
          value = Some ''[dbo].[placeholder]'', ignoreFocusOut = True\<rparr>,
        ShowInputBox \<lparr>prompt = ''Connection string setting name'', value = None,
          ignoreFocusOut = True\<rparr>,
        InsertSqlBindingRequest
          \<lparr>filePath = ''/ws/b/Function1.cs'', functionName = ''Function1'',
           objectName = ''[dbo].[Products]'', bindingType = BindingType_input,
           connectionStringSetting = ''SqlConnectionString''\<rparr>,
        ShowErrorMessage ''binding exists'',
        Stat ''/ws/a/Foo.csproj/host.json'']
       (Inr ()) \<and>
   filter is_error_message (calls (insertSqlInputBinding
      ((ui_host (Some ''input'') (Some ''Function1'') (Some ''[dbo].[Products]'')
         (Some ''SqlConnectionString'') (listed [''Function1'']) (failed ''binding exists''))
       \<lparr>resumes_after := 6\<rparr>)
      (Some cs_file))) = [ShowErrorMessage ''binding exists'']"
proof -
  let ?l = "ui_host None None None None (not_listed ''cannot parse file'') ok"
  let ?h = "(ui_host (Some ''input'') (Some ''Function1'') (Some ''[dbo].[Products]'')
         (Some ''SqlConnectionString'') (listed [''Function1'']) (failed ''binding exists''))
       \<lparr>resumes_after := 6\<rparr>"
  let ?p = "\<lparr>filePath = ''/ws/b/Function1.cs'', functionName = ''Function1'',
      objectName = ''[dbo].[Products]'', bindingType = BindingType_input,
      connectionStringSetting = ''SqlConnectionString''\<rparr>"
  have listing: "sendGetAzureFunctions ?l \<lparr>filePath = fsPath cs_file\<rparr> =
      Inr \<lparr>success = False, errorMessage = ''cannot parse file'', azureFunctions = []\<rparr> \<and>
      \<not> success \<lparr>success = False, errorMessage = ''cannot parse file'', azureFunctions = []\<rparr>"
    by (simp add: example_defs)
  have run: "insertSqlInputBinding ?h (Some cs_file) =
     Promise
       [Glob ''/ws/**/*.csproj'',
        ShowQuickPick [''input'', ''output''] ''Type of binding:'',
        GetAzureFunctionsRequest \<lparr>filePath = ''/ws/b/Function1.cs''\<rparr>,
        ShowQuickPick [''Function1''] ''Azure function in current file to add sql binding to:'',
        ShowInputBox \<lparr>prompt = ''Object to put in binding:'',
          value = Some ''[dbo].[placeholder]'', ignoreFocusOut = True\<rparr>,
        ShowInputBox \<lparr>prompt = ''Connection string setting name'', value = None,
          ignoreFocusOut = True\<rparr>,
        InsertSqlBindingRequest ?p,
        ShowErrorMessage ''binding exists'',
        Stat ''/ws/a/Foo.csproj/host.json'']
       (Inr ())"
    by (simp add: insertSqlInputBinding_Some ui_host_lookup_later) (simp add: run_defs)
  have inserting: "InsertSqlBindingRequest ?p \<in> set (calls (insertSqlInputBinding ?h (Some cs_file))) \<and>
      sendInsertSqlBinding ?h ?p = Inr \<lparr>success = False, errorMessage = ''binding exists''\<rparr> \<and>
      \<not> success \<lparr>success = False, errorMessage = ''binding exists''\<rparr>"
    by (simp add: run) (simp add: example_defs)
  show ?thesis
    using remote_failure_asymmetric [where h = ?l and doc = cs_file
        and r = "\<lparr>success = False, errorMessage = ''cannot parse file'', azureFunctions = []\<rparr>"]
      remote_failure_asymmetric [where h = ?h and p = ?p and u = "Some cs_file"
        and res = "\<lparr>success = False, errorMessage = ''binding exists''\<rparr>"]
      listing inserting run
    by (simp add: cs_file_def)
qed

text \<open>
  Claim C8 says that a missing argument, a cancelled prompt value among them, makes the
  operation a silent abort, and that \<open>insertSqlInputBinding\<close> returns without the insert
  request when a prompt value is absent. With the binding-type picker dismissed the code
  does not abort: it goes on through the other prompts and issues the insert request (the
  missing guard of lines 62--65 again).
\<close>

theorem cancelled_binding_prompt_runs_on:
  "showQuickPick
     (ui_host None (Some ''GetProducts'') (Some ''[dbo].[Products]'') (Some ''SqlConn'')
        (listed [''GetProducts'', ''AddProduct'']) ok)
     [''input'', ''output''] ''Type of binding:'' = None \<and>
   settled (insertSqlInputBinding
     (ui_host None (Some ''GetProducts'') (Some ''[dbo].[Products]'') (Some ''SqlConn'')
        (listed [''GetProducts'', ''AddProduct'']) ok)
     (Some cs_file)) = Inr () \<and>
   filter is_insert_request (calls (insertSqlInputBinding
     (ui_host None (Some ''GetProducts'') (Some ''[dbo].[Products]'') (Some ''SqlConn'')
        (listed [''GetProducts'', ''AddProduct'']) ok)
     (Some cs_file))) =
     [InsertSqlBindingRequest
        \<lparr>filePath = ''/ws/b/Function1.cs'', functionName = ''GetProducts'',
         objectName = ''[dbo].[Products]'', bindingType = BindingType_output,
         connectionStringSetting = ''SqlConn''\<rparr>]"
  by (simp add: insertSqlInputBinding_Some ui_host_lookup) (simp add: run_defs)



end
